theory Spec2Isabelle
  imports Main
begin

section \<open>Golden-file testing helper (package golden, file.go)\<close>

text \<open>
  A shallow embedding of \<^verbatim>\<open>file.go\<close>: the path resolver \<^verbatim>\<open>TestNameToFilePath\<close>, the
  recreate policy \<^verbatim>\<open>ParseRecreateFromEnv\<close>, \<^verbatim>\<open>NoError\<close>, \<^verbatim>\<open>EqualWithDiff\<close> and the
  methods \<^verbatim>\<open>Request\<close>, \<^verbatim>\<open>Assert\<close> and \<^verbatim>\<open>loadAndSaveFile\<close> of \<^verbatim>\<open>FileHandler\<close>.

  Go strings are byte sequences and are modelled as \<^typ>\<open>string\<close>. The functions of Go's
  standard library and of testify that the package calls are modelled in the first
  sections, after their documented behaviour on a Unix host; the functions of the package
  follow, statement by statement.
\<close>

subsection \<open>Package strings\<close>

text \<open>
  \<^verbatim>\<open>strings.SplitN(s, "/", 2)\<close>: at most two parts, cut at the first slash; a string with
  no slash comes back whole, as the only part.
\<close>

definition SplitN2 :: "string \<Rightarrow> string list" where
  "SplitN2 s =
     (case dropWhile (\<lambda>c. c \<noteq> CHR ''/'') s of
        [] \<Rightarrow> [s]
      | _ # after \<Rightarrow> [takeWhile (\<lambda>c. c \<noteq> CHR ''/'') s, after])"

text \<open>
  \<^verbatim>\<open>strings.ReplaceAll(s, old, new)\<close> where \<^verbatim>\<open>old\<close> and \<^verbatim>\<open>new\<close> are one byte long, which
  is how both calls of the package use it.
\<close>

definition ReplaceAll :: "string \<Rightarrow> char \<Rightarrow> char \<Rightarrow> string" where
  "ReplaceAll s old new = map (\<lambda>c. if c = old then new else c) s"

text \<open>\<^verbatim>\<open>strings.Split(s, "/")\<close> and \<^verbatim>\<open>strings.Join(elems, "/")\<close>.\<close>

fun splitSlash :: "string \<Rightarrow> string list" where
  "splitSlash [] = [[]]"
| "splitSlash (c # cs) =
     (if c = CHR ''/'' then [] # splitSlash cs
      else (case splitSlash cs of [] \<Rightarrow> [[c]] | e # es \<Rightarrow> (c # e) # es))"

fun joinSlash :: "string list \<Rightarrow> string" where
  "joinSlash [] = []"
| "joinSlash [e] = e"
| "joinSlash (e # es) = e @ ''/'' @ joinSlash es"

subsection \<open>Package path/filepath (Unix)\<close>

text \<open>
  \<^verbatim>\<open>filepath.Clean\<close> works on the elements between slashes: an empty element and \<^verbatim>\<open>.\<close> are
  dropped; \<^verbatim>\<open>..\<close> removes the element written last, unless there is none or it is itself
  \<^verbatim>\<open>..\<close>, in which case a rooted path drops the \<^verbatim>\<open>..\<close> and a relative path keeps it.
  \<open>cleanElems r out es\<close> holds the elements written so far in \<open>out\<close>, last one first.
  An empty result is \<^verbatim>\<open>.\<close>.
\<close>

definition IsRooted :: "string \<Rightarrow> bool" where
  "IsRooted p = (case p of [] \<Rightarrow> False | c # _ \<Rightarrow> c = CHR ''/'')"

fun cleanElems :: "bool \<Rightarrow> string list \<Rightarrow> string list \<Rightarrow> string list" where
  "cleanElems r out [] = rev out"
| "cleanElems r out (e # es) =
     (if e = [] \<or> e = ''.'' then cleanElems r out es
      else if e = ''..'' then
        (case out of
           [] \<Rightarrow> if r then cleanElems r [] es else cleanElems r [''..''] es
         | written # below \<Rightarrow>
             if written = ''..'' then cleanElems r (''..'' # out) es
             else cleanElems r below es)
      else cleanElems r (e # out) es)"

definition Clean :: "string \<Rightarrow> string" where
  "Clean p =
     (let s = (if IsRooted p then ''/'' else []) @
              joinSlash (cleanElems (IsRooted p) [] (splitSlash p))
      in if s = [] then ''.'' else s)"

text \<open>
  \<^verbatim>\<open>filepath.Join\<close>: the elements from the first non-empty one on are joined with slashes
  and the result is cleaned; no non-empty element gives the empty string.
\<close>

definition Join :: "string list \<Rightarrow> string" where
  "Join elem =
     (case dropWhile (\<lambda>e. e = []) elem of [] \<Rightarrow> [] | es \<Rightarrow> Clean (joinSlash es))"

text \<open>\<^verbatim>\<open>filepath.Dir\<close>: the path up to and including its last slash, cleaned.\<close>

definition Dir :: "string \<Rightarrow> string" where
  "Dir p = Clean (rev (dropWhile (\<lambda>c. c \<noteq> CHR ''/'') (rev p)))"

subsection \<open>Errors, the test reporter and the world\<close>

text \<open>
  The error values the package can meet: \<^verbatim>\<open>*fs.PathError\<close> (operation, path, errno),
  \<^verbatim>\<open>*strconv.NumError\<close> with \<^verbatim>\<open>ErrSyntax\<close> (function, input), and any other error,
  such as one of the HTTP client or of a response body, by its text.
\<close>

datatype errno = ENOENT | ENOTDIR | EISDIR

datatype error =
    PathError string string errno
  | NumError string string
  | ErrorString string

text \<open>
  A call of \<^verbatim>\<open>t.Logf\<close> or \<^verbatim>\<open>t.Errorf\<close> is recorded with its format string and its
  arguments. \<open>ANotEqual expected actual\<close> stands for the report that testify's
  \<^verbatim>\<open>assert.Equal\<close> renders for two unequal values (error trace, \<^verbatim>\<open>Not equal:\<close>, both
  values and their line diff).
\<close>

datatype arg = AStr string | AInt int | AErr error | ANotEqual string string

datatype event = ELogf string "arg list" | EErrorf string "arg list" | EFailNow

text \<open>
  The file system maps a cleaned path (rooted or not, and its elements) to a directory or
  to a regular file with its content. Paths are resolved lexically; the working directory
  and the root always exist. Permissions, symbolic links and length limits are not
  modelled.
\<close>

datatype node = Directory | Regular string

type_synonym key = "bool \<times> string list"

record world =
  files :: "key \<Rightarrow> node option"
  environ :: "string \<Rightarrow> string option"
  events :: "event list"

text \<open>
  The interface \<^verbatim>\<open>T\<close>. \<^verbatim>\<open>Name()\<close> is the test identifier. \<^verbatim>\<open>FailNow()\<close> of
  \<^verbatim>\<open>*testing.T\<close> ends the calling goroutine and never returns; the reporter \<^verbatim>\<open>mockT\<close> of
  the package's tests only sets a flag and returns. \<open>FailNow_returns\<close> tells the two
  apart.
\<close>

record T =
  Name :: string
  FailNow_returns :: bool

text \<open>
  A function of the package runs in a world and returns a value, is halted by
  \<^verbatim>\<open>FailNow\<close>, or panics (a nil pointer dereference).
\<close>

datatype 'a outcome = Returned 'a | Halted | Panicked

type_synonym 'a prog = "world \<Rightarrow> 'a outcome \<times> world"

definition ret :: "'a \<Rightarrow> 'a prog" where
  "ret x = (\<lambda>w. (Returned x, w))"

definition andThen :: "'a prog \<Rightarrow> ('a \<Rightarrow> 'b prog) \<Rightarrow> 'b prog" where
  "andThen m f =
     (\<lambda>w. case m w of
        (Returned x, w') \<Rightarrow> f x w'
      | (Halted, w') \<Rightarrow> (Halted, w')
      | (Panicked, w') \<Rightarrow> (Panicked, w'))"

definition Logf :: "T \<Rightarrow> string \<Rightarrow> arg list \<Rightarrow> unit prog" where
  "Logf t format args = (\<lambda>w. (Returned (), w\<lparr>events := events w @ [ELogf format args]\<rparr>))"

definition Errorf :: "T \<Rightarrow> string \<Rightarrow> arg list \<Rightarrow> unit prog" where
  "Errorf t format args = (\<lambda>w. (Returned (), w\<lparr>events := events w @ [EErrorf format args]\<rparr>))"

definition FailNow :: "T \<Rightarrow> unit prog" where
  "FailNow t =
     (\<lambda>w. (if FailNow_returns t then Returned () else Halted,
            w\<lparr>events := events w @ [EFailNow]\<rparr>))"

definition Helper :: "T \<Rightarrow> unit prog" where
  "Helper t = ret ()"

subsection \<open>Package os\<close>

text \<open>\<^verbatim>\<open>os.Getenv\<close>: the value of the variable, empty when it is not set.\<close>

definition Getenv :: "string \<Rightarrow> string prog" where
  "Getenv k = (\<lambda>w. (Returned (case environ w k of None \<Rightarrow> [] | Some v \<Rightarrow> v), w))"

definition path_key :: "string \<Rightarrow> key" where
  "path_key p = (IsRooted p, cleanElems (IsRooted p) [] (splitSlash p))"

definition node_at :: "world \<Rightarrow> key \<Rightarrow> node option" where
  "node_at w k = (if snd k = [] then Some Directory else files w k)"

definition is_regular :: "node option \<Rightarrow> bool" where
  "is_regular n = (case n of Some (Regular _) \<Rightarrow> True | _ \<Rightarrow> False)"

text \<open>The paths leading to a key: its non-empty prefixes, the key itself last.\<close>

definition upto_key :: "key \<Rightarrow> key list" where
  "upto_key k = map (\<lambda>n. (fst k, take n (snd k))) [1..<Suc (length (snd k))]"

definition parent_key :: "key \<Rightarrow> key" where
  "parent_key k = (fst k, butlast (snd k))"

text \<open>The errno of opening a path that has no node: a regular file on the way gives
  \<^verbatim>\<open>ENOTDIR\<close>, otherwise \<^verbatim>\<open>ENOENT\<close>.\<close>

definition missing_errno :: "world \<Rightarrow> key \<Rightarrow> errno" where
  "missing_errno w k =
     (if list_ex (\<lambda>a. is_regular (node_at w a)) (upto_key (parent_key k)) then ENOTDIR
      else ENOENT)"

text \<open>
  \<^verbatim>\<open>os.MkdirAll(path, perm)\<close>: creates the directory and every missing parent; a directory
  that exists is left as it is; a regular file at the path or on the way to it is an error.
\<close>

definition MkdirAll :: "string \<Rightarrow> error option prog" where
  "MkdirAll p =
     (\<lambda>w. let ks = upto_key (path_key p) in
        if list_ex (\<lambda>a. is_regular (node_at w a)) ks
        then (Returned (Some (PathError ''mkdir'' p ENOTDIR)), w)
        else (Returned None,
              w\<lparr>files := (\<lambda>k. if k \<in> set ks then Some Directory else files w k)\<rparr>))"

text \<open>
  \<^verbatim>\<open>os.WriteFile(name, data, perm)\<close>: creates the file or truncates it, then writes the
  data. The directory of the file must exist, and the name must not be a directory.
\<close>

definition WriteFile :: "string \<Rightarrow> string \<Rightarrow> error option prog" where
  "WriteFile p d =
     (\<lambda>w. let k = path_key p in
        case node_at w k of
          Some Directory \<Rightarrow> (Returned (Some (PathError ''open'' p EISDIR)), w)
        | _ \<Rightarrow>
          (case node_at w (parent_key k) of
             Some Directory \<Rightarrow> (Returned None, w\<lparr>files := (files w)(k \<mapsto> Regular d)\<rparr>)
           | _ \<Rightarrow> (Returned (Some (PathError ''open'' p (missing_errno w k))), w)))"

text \<open>
  \<^verbatim>\<open>os.ReadFile(name)\<close>: the content of the file and no error, or no content and the
  error of opening or reading it.
\<close>

definition ReadFile :: "string \<Rightarrow> (string \<times> error option) prog" where
  "ReadFile p =
     (\<lambda>w. let k = path_key p in
        case node_at w k of
          Some (Regular d) \<Rightarrow> (Returned (d, None), w)
        | Some Directory \<Rightarrow> (Returned ([], Some (PathError ''read'' p EISDIR)), w)
        | None \<Rightarrow> (Returned ([], Some (PathError ''open'' p (missing_errno w k))), w))"

subsection \<open>Package strconv\<close>

text \<open>\<^verbatim>\<open>strconv.ParseBool\<close> accepts twelve spellings and no other.\<close>

definition ParseBool :: "string \<Rightarrow> bool \<times> error option" where
  "ParseBool str =
     (if str \<in> set [''1'', ''t'', ''T'', ''TRUE'', ''true'', ''True''] then (True, None)
      else if str \<in> set [''0'', ''f'', ''F'', ''FALSE'', ''false'', ''False''] then (False, None)
      else (False, Some (NumError ''ParseBool'' str)))"

subsection \<open>HTTP requests and responses\<close>

text \<open>
  A request is opaque to the package. A response has a status code and a body; the body is
  a stream: the bytes still to be read, and the error that ends the stream in place of
  the end of file, if any. \<^verbatim>\<open>io.ReadAll\<close> drains the stream;
  \<^verbatim>\<open>io.NopCloser(bytes.NewReader(b))\<close> is a fresh stream over \<open>b\<close>.
\<close>

record request =
  Method :: string
  URL :: string

datatype reader = Reader string "error option"

record response =
  StatusCode :: int
  Body :: reader

fun ReadAll :: "reader \<Rightarrow> (string \<times> error option) \<times> reader" where
  "ReadAll (Reader pending fault) = ((pending, fault), Reader [] fault)"

definition NewReader :: "string \<Rightarrow> reader" where
  "NewReader b = Reader b None"

text \<open>The interface \<^verbatim>\<open>Client\<close>: \<^verbatim>\<open>Do\<close> returns a response pointer, which may be nil, and
  an error.\<close>

type_synonym Client = "request \<Rightarrow> (response option \<times> error option) prog"

subsection \<open>file.go\<close>

text \<open>
  \<^verbatim>\<open>FileHandler\<close>: the four strategies. \<^verbatim>\<open>ProcessContent\<close> may be nil; the other three
  are called without a check and are taken to be set.
\<close>

record FileHandler =
  FileName :: "T \<Rightarrow> string prog"
  ShouldRecreate :: "T \<Rightarrow> bool prog"
  ProcessContent :: "(T \<Rightarrow> string \<Rightarrow> string prog) option"
  Equal :: "T \<Rightarrow> string \<Rightarrow> string \<Rightarrow> bool prog"

definition NoError :: "T \<Rightarrow> error option \<Rightarrow> string \<Rightarrow> unit prog" where
  "NoError t err msg =
     andThen (Helper t) (\<lambda>_.
       case err of
         None \<Rightarrow> ret ()
       | Some e \<Rightarrow>
           andThen (Errorf t ''%s: %s'' [AStr msg, AErr e]) (\<lambda>_.
           FailNow t))"

text \<open>\<^verbatim>\<open>assert.Equal\<close> on two strings: one \<^verbatim>\<open>Errorf\<close> with the report when they differ,
  and never \<^verbatim>\<open>FailNow\<close>.\<close>

definition EqualWithDiff :: "T \<Rightarrow> string \<Rightarrow> string \<Rightarrow> bool prog" where
  "EqualWithDiff t expected actual =
     (if expected = actual then ret True
      else andThen (Errorf t (CHR 0x0A # ''%s'') [ANotEqual expected actual]) (\<lambda>_. ret False))"

definition TestNameToFilePath :: "T \<Rightarrow> string prog" where
  "TestNameToFilePath t =
     (let split = SplitN2 (Name t);
          (mainTestName, testName) =
            (case split of
               [first, second] \<Rightarrow> (first, ReplaceAll second (CHR ''/'') (CHR ''_''))
             | _ \<Rightarrow> (Name t, Name t))
      in ret (ReplaceAll (Join [''./testdata/'', mainTestName, testName @ ''.golden''])
                (CHR '' '') (CHR ''_'')))"

definition ParseRecreateFromEnv :: "T \<Rightarrow> bool prog" where
  "ParseRecreateFromEnv t =
     andThen (Getenv ''GOLDEN_FILES_RECREATE'') (\<lambda>str.
       if str = [] then ret False
       else
         (case ParseBool str of (overwrite, err) \<Rightarrow>
            andThen (NoError t err
              (''failed to parse GOLDEN_FILES_RECREATE env variable: '' @ [CHR 0x27] @ str @
               [CHR 0x27] @ '' to bool'')) (\<lambda>_.
            ret overwrite)))"

definition loadAndSaveFile :: "FileHandler \<Rightarrow> T \<Rightarrow> string \<Rightarrow> string prog" where
  "loadAndSaveFile h t data =
     andThen (FileName h t) (\<lambda>fileName.
     andThen (ShouldRecreate h t) (\<lambda>recreate.
     andThen
       (if recreate then
          andThen (Logf t ''recreating golden file: %s'' [AStr fileName]) (\<lambda>_.
          andThen (MkdirAll (Dir fileName)) (\<lambda>err.
          andThen (NoError t err ''failed to create testdata directory for golden file'') (\<lambda>_.
          andThen (WriteFile fileName data) (\<lambda>err.
          NoError t err ''failed to write golden file''))))
        else ret ()) (\<lambda>_.
     andThen (ReadFile fileName) (\<lambda>(b, err).
     andThen (NoError t err ''failed to read golden file'') (\<lambda>_.
     ret b)))))"

definition FileHandler_Assert :: "FileHandler \<Rightarrow> T \<Rightarrow> string \<Rightarrow> bool prog" where
  "FileHandler_Assert h t data =
     andThen (Helper t) (\<lambda>_.
     andThen (case ProcessContent h of None \<Rightarrow> ret data | Some process \<Rightarrow> process t data)
       (\<lambda>data.
     andThen (loadAndSaveFile h t data) (\<lambda>expected.
     Equal h t expected data)))"

definition FileHandler_Request ::
  "FileHandler \<Rightarrow> T \<Rightarrow> Client \<Rightarrow> request \<Rightarrow> int \<Rightarrow> (response \<times> bool) prog" where
  "FileHandler_Request h t client req expectedStatusCode =
     andThen (client req) (\<lambda>(resp, err).
     andThen (NoError t err ''client.Do failed'') (\<lambda>_.
     case resp of
       None \<Rightarrow> (\<lambda>w. (Panicked, w))
     | Some resp \<Rightarrow>
         andThen
           (if StatusCode resp \<noteq> expectedStatusCode then
              andThen (Errorf t ''expected status code %d, got %d''
                         [AInt expectedStatusCode, AInt (StatusCode resp)]) (\<lambda>_.
              ret False)
            else ret True) (\<lambda>ok.
         case ReadAll (Body resp) of ((body, err), _) \<Rightarrow>
           andThen (NoError t err ''reading response body failed'') (\<lambda>_.
           andThen (FileHandler_Assert h t body) (\<lambda>equal.
           ret (resp\<lparr>Body := NewReader body\<rparr>, equal \<and> ok))))))"

definition DefaultHandler :: FileHandler where
  "DefaultHandler =
     \<lparr>FileName = TestNameToFilePath,
      ShouldRecreate = ParseRecreateFromEnv,
      ProcessContent = None,
      Equal = EqualWithDiff\<rparr>"

definition Request :: "T \<Rightarrow> Client \<Rightarrow> request \<Rightarrow> int \<Rightarrow> (response \<times> bool) prog" where
  "Request t client req expectedStatusCode =
     FileHandler_Request DefaultHandler t client req expectedStatusCode"

definition Assert :: "T \<Rightarrow> string \<Rightarrow> bool prog" where
  "Assert t data = FileHandler_Assert DefaultHandler t data"

subsection \<open>The path layout, and inputs for the examples\<close>

text \<open>
  The layout of a golden path as the resolver produces it: the part of the identifier
  before its first slash names the directory under \<^verbatim>\<open>testdata\<close>, the part after it, with
  its slashes turned into underscores, names the file; an identifier with no slash names
  both. Spaces become underscores.
\<close>

definition golden_path :: "string \<Rightarrow> string" where
  "golden_path name =
     (let top = takeWhile (\<lambda>c. c \<noteq> CHR ''/'') name;
          rest = (if CHR ''/'' \<in> set name
                  then ReplaceAll (tl (dropWhile (\<lambda>c. c \<noteq> CHR ''/'') name))
                         (CHR ''/'') (CHR ''_'')
                  else name)
      in ReplaceAll (''testdata/'' @ top @ ''/'' @ rest @ ''.golden'') (CHR '' '') (CHR ''_''))"

text \<open>A world with no file, no variable and no report; the two kinds of reporter.\<close>

definition emptyWorld :: world where
  "emptyWorld = \<lparr>files = (\<lambda>_. None), environ = (\<lambda>_. None), events = []\<rparr>"

definition testingT :: "string \<Rightarrow> T" where
  "testingT name = \<lparr>Name = name, FailNow_returns = False\<rparr>"

definition mockT :: "string \<Rightarrow> T" where
  "mockT name = \<lparr>Name = name, FailNow_returns = True\<rparr>"

text \<open>
  A content transform that ends the data with an exclamation mark, a client that answers
  every request with a given status code and body, a client that fails with a given
  error, and a request.
\<close>

definition exclaim :: "T \<Rightarrow> string \<Rightarrow> string prog" where
  "exclaim t s = ret (s @ ''!'')"

definition respondWith :: "int \<Rightarrow> string \<Rightarrow> Client" where
  "respondWith status content =
     (\<lambda>req. ret (Some \<lparr>StatusCode = status, Body = Reader content None\<rparr>, None))"

definition failWith :: "error \<Rightarrow> Client" where
  "failWith e = (\<lambda>req. ret (None, Some e))"

definition getRequest :: request where
  "getRequest = \<lparr>Method = ''GET'', URL = ''http://127.0.0.1:8080/''\<rparr>"

section \<open>Properties\<close>

subsection \<open>Running a program\<close>

named_theorems prog_simps

lemma ret_apply [prog_simps]: "ret x w = (Returned x, w)"
  by (simp add: ret_def)

lemma andThen_apply [prog_simps]:
  "andThen m f w =
     (case m w of
        (Returned x, w') \<Rightarrow> f x w'
      | (Halted, w') \<Rightarrow> (Halted, w')
      | (Panicked, w') \<Rightarrow> (Panicked, w'))"
  by (simp add: andThen_def)

lemma Getenv_apply [prog_simps]:
  "Getenv k w = (Returned (case environ w k of None \<Rightarrow> [] | Some v \<Rightarrow> v), w)"
  by (simp add: Getenv_def)

lemma Logf_apply [prog_simps]:
  "Logf t format args w = (Returned (), w\<lparr>events := events w @ [ELogf format args]\<rparr>)"
  by (simp add: Logf_def)

lemma Errorf_apply [prog_simps]:
  "Errorf t format args w = (Returned (), w\<lparr>events := events w @ [EErrorf format args]\<rparr>)"
  by (simp add: Errorf_def)

lemma NoError_None [prog_simps]: "NoError t None msg w = (Returned (), w)"
  by (simp add: NoError_def Helper_def prog_simps)

lemma NoError_Some [prog_simps]:
  "NoError t (Some e) msg w =
     (if FailNow_returns t then Returned () else Halted,
      w\<lparr>events := events w @ [EErrorf ''%s: %s'' [AStr msg, AErr e], EFailNow]\<rparr>)"
  by (simp add: NoError_def Helper_def Errorf_def FailNow_def prog_simps)

subsection \<open>Paths\<close>

lemma splitSlash_no_slash: "CHR ''/'' \<notin> set a \<Longrightarrow> splitSlash a = [a]"
  by (induction a) auto

lemma splitSlash_append:
  "CHR ''/'' \<notin> set a \<Longrightarrow> splitSlash (a @ CHR ''/'' # b) = a # splitSlash b"
  by (induction a) auto

lemma golden_not_dots:
  "x @ ''.golden'' \<noteq> []" "x @ ''.golden'' \<noteq> ''.''" "x @ ''.golden'' \<noteq> ''..''"
  by (cases x; cases "tl x"; cases "tl (tl x)"; simp)+

lemma Join_testdata:
  assumes "CHR ''/'' \<notin> set m" "m \<noteq> []" "m \<noteq> ''.''" "m \<noteq> ''..''" "CHR ''/'' \<notin> set x"
  shows "Join [''./testdata/'', m, x @ ''.golden''] = ''testdata/'' @ m @ ''/'' @ x @ ''.golden''"
proof -
  have s: "splitSlash (''./testdata/'' @ ''/'' @ m @ ''/'' @ x @ ''.golden'')
        = [''.'', ''testdata'', [], m, x @ ''.golden'']"
    using assms splitSlash_append[of m "x @ ''.golden''"] splitSlash_no_slash[of "x @ ''.golden''"]
    by simp
  have c: "cleanElems False [] [''.'', ''testdata'', [], m, x @ ''.golden'']
        = [''testdata'', m, x @ ''.golden'']"
    using assms golden_not_dots[of x] by simp
  have r: "\<not> IsRooted (''./testdata/'' @ ''/'' @ m @ ''/'' @ x @ ''.golden'')"
    by (simp add: IsRooted_def)
  have "Clean (''./testdata/'' @ ''/'' @ m @ ''/'' @ x @ ''.golden'')
        = ''testdata/'' @ m @ ''/'' @ x @ ''.golden''"
    unfolding Clean_def Let_def using r by (simp only: s c if_False) simp
  then show ?thesis
    by (simp add: Join_def)
qed

lemma dropWhile_slash: "CHR ''/'' \<in> set n \<Longrightarrow> \<exists>after. dropWhile (\<lambda>c. c \<noteq> CHR ''/'') n = CHR ''/'' # after"
  by (induction n) auto

lemma TestNameToFilePath_layout:
  assumes "takeWhile (\<lambda>c. c \<noteq> CHR ''/'') (Name t) \<notin> set [[], ''.'', ''..'']"
  shows "TestNameToFilePath t w = (Returned (golden_path (Name t)), w)"
proof (cases "CHR ''/'' \<in> set (Name t)")
  case True
  then obtain after where d: "dropWhile (\<lambda>c. c \<noteq> CHR ''/'') (Name t) = CHR ''/'' # after"
    using dropWhile_slash by blast
  let ?m = "takeWhile (\<lambda>c. c \<noteq> CHR ''/'') (Name t)"
  let ?x = "ReplaceAll after (CHR ''/'') (CHR ''_'')"
  have "CHR ''/'' \<notin> set ?m"
    by (auto dest: set_takeWhileD)
  moreover have "CHR ''/'' \<notin> set ?x"
    by (auto simp: ReplaceAll_def)
  ultimately have j: "Join [''./testdata/'', ?m, ?x @ ''.golden'']
      = ''testdata/'' @ ?m @ ''/'' @ ?x @ ''.golden''"
    using assms by (intro Join_testdata) auto
  show ?thesis
    unfolding TestNameToFilePath_def SplitN2_def golden_path_def ret_def Let_def d
    using True by (simp add: j d)
next
  case False
  then have d: "dropWhile (\<lambda>c. c \<noteq> CHR ''/'') (Name t) = []"
    and tk: "takeWhile (\<lambda>c. c \<noteq> CHR ''/'') (Name t) = Name t"
    by (auto simp: takeWhile_eq_all_conv)
  have j: "Join [''./testdata/'', Name t, Name t @ ''.golden'']
      = ''testdata/'' @ Name t @ ''/'' @ Name t @ ''.golden''"
    using assms False tk by (intro Join_testdata) auto
  show ?thesis
    unfolding TestNameToFilePath_def SplitN2_def golden_path_def ret_def Let_def d tk
    using False by (simp add: j)
qed
text \<open>
  C2. As the claim states it, the resolver would return \<^verbatim>\<open>./testdata/Top/Top.golden\<close> for
  the identifier \<^verbatim>\<open>Top\<close>. It returns \<^verbatim>\<open>testdata/Top/Top.golden\<close>: the path is built with
  \<^verbatim>\<open>filepath.Join\<close>, which cleans it and so drops the leading \<^verbatim>\<open>./\<close>.
\<close>

theorem TestNameToFilePath_dot_slash_counterexample:
  "fst (TestNameToFilePath (testingT ''Top'') emptyWorld) = Returned ''testdata/Top/Top.golden'' \<and>
   fst (TestNameToFilePath (testingT ''Top'') emptyWorld) \<noteq> Returned ''./testdata/Top/Top.golden''"
  by code_simp

text \<open>
  C2, amended. For every test identifier whose top-level name (the part before the first
  slash) is not empty and is neither \<^verbatim>\<open>.\<close> nor \<^verbatim>\<open>..\<close>, the resolver returns exactly
  \<^verbatim>\<open>testdata/<TopLevelName>/<RestJoinedByUnderscore>.golden\<close>, the cleaned form of the path
  with no leading \<^verbatim>\<open>./\<close>, with spaces replaced by underscores. So \<^verbatim>\<open>Top\<close> gives
  \<^verbatim>\<open>testdata/Top/Top.golden\<close>, \<^verbatim>\<open>Top/Sub\<close> gives \<^verbatim>\<open>testdata/Top/Sub.golden\<close>,
  \<^verbatim>\<open>Top/Sub/Nested\<close> gives \<^verbatim>\<open>testdata/Top/Sub_Nested.golden\<close> and \<^verbatim>\<open>Top/Sub Name\<close> gives
  \<^verbatim>\<open>testdata/Top/Sub_Name.golden\<close>.
\<close>

theorem TestNameToFilePath_cleaned_layout:
  "(takeWhile (\<lambda>c. c \<noteq> CHR ''/'') (Name t) \<notin> set [[], ''.'', ''..''] \<longrightarrow>
      TestNameToFilePath t w = (Returned (golden_path (Name t)), w)) \<and>
   golden_path ''Top'' = ''testdata/Top/Top.golden'' \<and>
   golden_path ''Top/Sub'' = ''testdata/Top/Sub.golden'' \<and>
   golden_path ''Top/Sub/Nested'' = ''testdata/Top/Sub_Nested.golden'' \<and>
   golden_path ''Top/Sub Name'' = ''testdata/Top/Sub_Name.golden''"
proof (intro conjI impI)
  assume "takeWhile (\<lambda>c. c \<noteq> CHR ''/'') (Name t) \<notin> set [[], ''.'', ''..'']"
  then show "TestNameToFilePath t w = (Returned (golden_path (Name t)), w)"
    by (rule TestNameToFilePath_layout)
qed code_simp+

theorem TestNameToFilePath_cleaned_layout_witness:
  "TestNameToFilePath (mockT ''Top/Sub Name'') emptyWorld
     = (Returned ''testdata/Top/Sub_Name.golden'', emptyWorld) \<and>
   TestNameToFilePath (mockT ''Top/Sub/Nested'') emptyWorld
     = (Returned ''testdata/Top/Sub_Nested.golden'', emptyWorld) \<and>
   TestNameToFilePath (mockT ''Top/Sub'') emptyWorld
     = (Returned ''testdata/Top/Sub.golden'', emptyWorld) \<and>
   TestNameToFilePath (mockT ''Top'') emptyWorld
     = (Returned ''testdata/Top/Top.golden'', emptyWorld)"
proof -
  have n: "Name (mockT x) = x" for x
    by (simp add: mockT_def)
  have h: "takeWhile (\<lambda>c. c \<noteq> CHR ''/'') ''Top/Sub Name'' \<notin> set [[], ''.'', ''..'']"
    "takeWhile (\<lambda>c. c \<noteq> CHR ''/'') ''Top/Sub/Nested'' \<notin> set [[], ''.'', ''..'']"
    "takeWhile (\<lambda>c. c \<noteq> CHR ''/'') ''Top/Sub'' \<notin> set [[], ''.'', ''..'']"
    "takeWhile (\<lambda>c. c \<noteq> CHR ''/'') ''Top'' \<notin> set [[], ''.'', ''..'']"
    by code_simp+
  show ?thesis
    using TestNameToFilePath_cleaned_layout [of "mockT ''Top/Sub Name''" emptyWorld]
      TestNameToFilePath_cleaned_layout [of "mockT ''Top/Sub/Nested''" emptyWorld]
      TestNameToFilePath_cleaned_layout [of "mockT ''Top/Sub''" emptyWorld]
      TestNameToFilePath_cleaned_layout [of "mockT ''Top''" emptyWorld]
    unfolding n using h by metis
qed

text \<open>
  C9. Path resolution is a pure, total and deterministic function of the test identifier:
  it always returns a path, the same one in every world, it leaves the world as it is, and
  two reporters with the same identifier get the same path.
\<close>

theorem TestNameToFilePath_pure:
  "(\<exists>p. \<forall>w. TestNameToFilePath t w = (Returned p, w)) \<and>
   (Name t = Name t' \<longrightarrow> fst (TestNameToFilePath t w) = fst (TestNameToFilePath t' w'))"
proof
  show ex: "\<exists>p. \<forall>w. TestNameToFilePath t w = (Returned p, w)"
    by (simp add: TestNameToFilePath_def ret_def Let_def split: prod.splits)
  show "Name t = Name t' \<longrightarrow> fst (TestNameToFilePath t w) = fst (TestNameToFilePath t' w')"
  proof
    assume n: "Name t = Name t'"
    from ex obtain p where p: "\<forall>w. TestNameToFilePath t w = (Returned p, w)" ..
    have "TestNameToFilePath t' = TestNameToFilePath t"
      unfolding TestNameToFilePath_def n ..
    with p show "fst (TestNameToFilePath t w) = fst (TestNameToFilePath t' w')"
      by simp
  qed
qed

theorem TestNameToFilePath_pure_witness:
  "fst (TestNameToFilePath (testingT ''Top/Sub'') emptyWorld)
     = fst (TestNameToFilePath (mockT ''Top/Sub'') (emptyWorld\<lparr>events := [EFailNow]\<rparr>))"
  using TestNameToFilePath_pure [of "testingT ''Top/Sub''" "mockT ''Top/Sub''" emptyWorld
      "emptyWorld\<lparr>events := [EFailNow]\<rparr>"]
  by (simp add: testingT_def mockT_def)

subsection \<open>The recreate policy\<close>

text \<open>
  C4. As the claim states it, the accepted spellings would be \<^verbatim>\<open>true\<close>, \<^verbatim>\<open>false\<close>, \<^verbatim>\<open>1\<close>
  and \<^verbatim>\<open>0\<close> in any letter case, and every other value of the variable would be an
  error. The policy leaves the parsing to \<^verbatim>\<open>strconv.ParseBool\<close>: \<^verbatim>\<open>tRUE\<close> is refused and
  halts the test, \<^verbatim>\<open>t\<close> is accepted as true with no report, and a variable that is set
  to the empty string is read as false with no report.
\<close>

theorem ParseRecreateFromEnv_counterexample:
  "fst (ParseRecreateFromEnv (testingT ''Top'')
          (emptyWorld\<lparr>environ := [''GOLDEN_FILES_RECREATE'' \<mapsto> ''tRUE'']\<rparr>)) = Halted \<and>
   fst (ParseRecreateFromEnv (testingT ''Top'')
          (emptyWorld\<lparr>environ := [''GOLDEN_FILES_RECREATE'' \<mapsto> ''t'']\<rparr>)) = Returned True \<and>
   events (snd (ParseRecreateFromEnv (testingT ''Top'')
          (emptyWorld\<lparr>environ := [''GOLDEN_FILES_RECREATE'' \<mapsto> ''t'']\<rparr>))) = [] \<and>
   fst (ParseRecreateFromEnv (testingT ''Top'')
          (emptyWorld\<lparr>environ := [''GOLDEN_FILES_RECREATE'' \<mapsto> []]\<rparr>)) = Returned False \<and>
   events (snd (ParseRecreateFromEnv (testingT ''Top'')
          (emptyWorld\<lparr>environ := [''GOLDEN_FILES_RECREATE'' \<mapsto> []]\<rparr>))) = []"
  by code_simp

text \<open>
  C4, amended. The default recreate policy reads the environment variable
  \<^verbatim>\<open>GOLDEN_FILES_RECREATE\<close> on each call. When it is unset or empty the policy returns
  false. When it is one of \<^verbatim>\<open>1 t T TRUE true True\<close> the policy returns true, and when it is
  one of \<^verbatim>\<open>0 f F FALSE false False\<close> it returns false, with no report. Any other
  non-empty value is reported with \<^verbatim>\<open>Errorf\<close>, followed by \<^verbatim>\<open>FailNow\<close>, which halts the
  test (a reporter whose \<^verbatim>\<open>FailNow\<close> returns gets false).
\<close>

theorem ParseRecreateFromEnv_cases:
  "(environ w ''GOLDEN_FILES_RECREATE'' = None \<or> environ w ''GOLDEN_FILES_RECREATE'' = Some [] \<longrightarrow>
      ParseRecreateFromEnv t w = (Returned False, w)) \<and>
   (environ w ''GOLDEN_FILES_RECREATE'' = Some str \<and>
    str \<in> set [''1'', ''t'', ''T'', ''TRUE'', ''true'', ''True''] \<longrightarrow>
      ParseRecreateFromEnv t w = (Returned True, w)) \<and>
   (environ w ''GOLDEN_FILES_RECREATE'' = Some str \<and>
    str \<in> set [''0'', ''f'', ''F'', ''FALSE'', ''false'', ''False''] \<longrightarrow>
      ParseRecreateFromEnv t w = (Returned False, w)) \<and>
   (environ w ''GOLDEN_FILES_RECREATE'' = Some str \<and> str \<noteq> [] \<and>
    str \<notin> set [''1'', ''t'', ''T'', ''TRUE'', ''true'', ''True'',
                 ''0'', ''f'', ''F'', ''FALSE'', ''false'', ''False''] \<longrightarrow>
      ParseRecreateFromEnv t w =
        (if FailNow_returns t then Returned False else Halted,
         w\<lparr>events := events w @
            [EErrorf ''%s: %s''
               [AStr (''failed to parse GOLDEN_FILES_RECREATE env variable: '' @ [CHR 0x27] @
                      str @ [CHR 0x27] @ '' to bool''),
                AErr (NumError ''ParseBool'' str)],
             EFailNow]\<rparr>))"
proof (intro conjI impI)
  assume "environ w ''GOLDEN_FILES_RECREATE'' = None \<or> environ w ''GOLDEN_FILES_RECREATE'' = Some []"
  then show "ParseRecreateFromEnv t w = (Returned False, w)"
    by (auto simp add: ParseRecreateFromEnv_def prog_simps)
next
  assume a: "environ w ''GOLDEN_FILES_RECREATE'' = Some str \<and>
    str \<in> set [''1'', ''t'', ''T'', ''TRUE'', ''true'', ''True'']"
  then have "ParseBool str = (True, None)" "str \<noteq> []"
    by (auto simp add: ParseBool_def)
  with a show "ParseRecreateFromEnv t w = (Returned True, w)"
    by (simp add: ParseRecreateFromEnv_def prog_simps)
next
  assume a: "environ w ''GOLDEN_FILES_RECREATE'' = Some str \<and>
    str \<in> set [''0'', ''f'', ''F'', ''FALSE'', ''false'', ''False'']"
  then have "ParseBool str = (False, None)" "str \<noteq> []"
    by (auto simp add: ParseBool_def)
  with a show "ParseRecreateFromEnv t w = (Returned False, w)"
    by (simp add: ParseRecreateFromEnv_def prog_simps)
next
  assume a: "environ w ''GOLDEN_FILES_RECREATE'' = Some str \<and> str \<noteq> [] \<and>
    str \<notin> set [''1'', ''t'', ''T'', ''TRUE'', ''true'', ''True'',
                 ''0'', ''f'', ''F'', ''FALSE'', ''false'', ''False'']"
  then have "ParseBool str = (False, Some (NumError ''ParseBool'' str))"
    by (simp add: ParseBool_def)
  with a show "ParseRecreateFromEnv t w =
        (if FailNow_returns t then Returned False else Halted,
         w\<lparr>events := events w @
            [EErrorf ''%s: %s''
               [AStr (''failed to parse GOLDEN_FILES_RECREATE env variable: '' @ [CHR 0x27] @
                      str @ [CHR 0x27] @ '' to bool''),
                AErr (NumError ''ParseBool'' str)],
             EFailNow]\<rparr>)"
    by (simp add: ParseRecreateFromEnv_def prog_simps)
qed

theorem ParseRecreateFromEnv_cases_witness:
  "ParseRecreateFromEnv (testingT ''Top'') emptyWorld = (Returned False, emptyWorld) \<and>
   ParseRecreateFromEnv (testingT ''Top'')
       (emptyWorld\<lparr>environ := [''GOLDEN_FILES_RECREATE'' \<mapsto> ''TRUE'']\<rparr>)
     = (Returned True, emptyWorld\<lparr>environ := [''GOLDEN_FILES_RECREATE'' \<mapsto> ''TRUE'']\<rparr>) \<and>
   ParseRecreateFromEnv (testingT ''Top'')
       (emptyWorld\<lparr>environ := [''GOLDEN_FILES_RECREATE'' \<mapsto> ''0'']\<rparr>)
     = (Returned False, emptyWorld\<lparr>environ := [''GOLDEN_FILES_RECREATE'' \<mapsto> ''0'']\<rparr>) \<and>
   ParseRecreateFromEnv (testingT ''Top'')
       (emptyWorld\<lparr>environ := [''GOLDEN_FILES_RECREATE'' \<mapsto> ''yes'']\<rparr>)
     = (Halted,
        emptyWorld\<lparr>environ := [''GOLDEN_FILES_RECREATE'' \<mapsto> ''yes''],
          events :=
            [EErrorf ''%s: %s''
               [AStr (''failed to parse GOLDEN_FILES_RECREATE env variable: '' @ [CHR 0x27] @
                      ''yes'' @ [CHR 0x27] @ '' to bool''),
                AErr (NumError ''ParseBool'' ''yes'')],
             EFailNow]\<rparr>)"
  using ParseRecreateFromEnv_cases [where t = "testingT ''Top''" and w = emptyWorld]
    ParseRecreateFromEnv_cases [where t = "testingT ''Top''" and str = "''TRUE''"
      and w = "emptyWorld\<lparr>environ := [''GOLDEN_FILES_RECREATE'' \<mapsto> ''TRUE'']\<rparr>"]
    ParseRecreateFromEnv_cases [where t = "testingT ''Top''" and str = "''0''"
      and w = "emptyWorld\<lparr>environ := [''GOLDEN_FILES_RECREATE'' \<mapsto> ''0'']\<rparr>"]
    ParseRecreateFromEnv_cases [where t = "testingT ''Top''" and str = "''yes''"
      and w = "emptyWorld\<lparr>environ := [''GOLDEN_FILES_RECREATE'' \<mapsto> ''yes'']\<rparr>"]
  by (simp add: emptyWorld_def testingT_def)

end
